theory Spec2Isabelle
  imports Main "HOL-Library.Char_ord" "HOL-Library.List_Lexorder" "HOL-Library.Word"
begin

section \<open>Values of the host language\<close>

text \<open>
  A rejected promise or a thrown exception carries a JavaScript error. The
  fields the interface reads are the message, the numeric code of a wallet
  error and the revert reason of a failed contract call.
\<close>

record JsError =
  message :: string
  code :: "int option"
  reason :: "string option"

definition Error :: "string \<Rightarrow> JsError" where
  "Error m = \<lparr>message = m, code = None, reason = None\<rparr>"

text \<open>The values that end up in an access list: a string, \<^verbatim>\<open>null\<close> or \<^verbatim>\<open>undefined\<close>.\<close>

datatype JsVal = JUndefined | JNull | JStr string

text \<open>Sequencing of computations that may throw.\<close>

definition andThen :: "'e + 'a \<Rightarrow> ('a \<Rightarrow> 'e + 'b) \<Rightarrow> 'e + 'b" where
  "andThen m f = (case m of Inl e \<Rightarrow> Inl e | Inr x \<Rightarrow> f x)"

text \<open>
  Truthiness of an optional string: \<^verbatim>\<open>undefined\<close>, \<^verbatim>\<open>null\<close> and the empty
  string are falsy.
\<close>

definition truthy :: "string option \<Rightarrow> bool" where
  "truthy v = (case v of None \<Rightarrow> False | Some s \<Rightarrow> s \<noteq> [])"

section \<open>Numbers of the host libraries\<close>

text \<open>
  Both big-integer libraries used by the interface (\<^verbatim>\<open>BigNumber\<close> of ethers and
  \<^verbatim>\<open>JSBI\<close>) hold integers of any size and divide by truncating towards zero.
  They are modelled as \<^typ>\<open>int\<close>; the quotient is written out because the
  quotient of HOL rounds towards minus infinity.
\<close>

definition bn_div :: "int \<Rightarrow> int \<Rightarrow> int" where
  "bn_div a b = sgn a * sgn b * (\<bar>a\<bar> div \<bar>b\<bar>)"

subsection \<open>Decimal and hexadecimal text\<close>

definition digitChar :: "nat \<Rightarrow> char" where
  "digitChar d = ''0123456789abcdef'' ! d"

function natToString :: "nat \<Rightarrow> nat \<Rightarrow> string" where
  "natToString radix n =
     (if radix < 2 \<or> n < radix then [digitChar n]
      else natToString radix (n div radix) @ [digitChar (n mod radix)])"
  by pat_completeness auto
termination
  by (relation "measure (\<lambda>(radix, n). n)") auto

declare natToString.simps [simp del]

text \<open>\<^verbatim>\<open>String(n)\<close> of an integer-valued number.\<close>

definition numberToString :: "int \<Rightarrow> string" where
  "numberToString i = (if i < 0 then ''-'' @ natToString 10 (nat (- i)) else natToString 10 (nat i))"

definition hexDigitValue :: "char \<Rightarrow> nat option" where
  "hexDigitValue c =
     (let k = of_char c :: nat in
      if 48 \<le> k \<and> k \<le> 57 then Some (k - 48)
      else if 97 \<le> k \<and> k \<le> 102 then Some (k - 87)
      else if 65 \<le> k \<and> k \<le> 70 then Some (k - 55)
      else None)"

definition decDigitValue :: "char \<Rightarrow> nat option" where
  "decDigitValue c =
     (let k = of_char c :: nat in if 48 \<le> k \<and> k \<le> 57 then Some (k - 48) else None)"

fun readDigits :: "(char \<Rightarrow> nat option) \<Rightarrow> nat \<Rightarrow> nat \<Rightarrow> string \<Rightarrow> nat option" where
  "readDigits dv radix acc [] = Some acc"
| "readDigits dv radix acc (c # cs) =
     (case dv c of None \<Rightarrow> None | Some d \<Rightarrow> readDigits dv radix (acc * radix + d) cs)"

text \<open>
  \<^verbatim>\<open>BigNumber.from(text)\<close>: the text is \<^verbatim>\<open>/^-?0x[0-9a-f]+$/i\<close> or
  \<^verbatim>\<open>/^-?[0-9]+$/\<close>; anything else is an invalid BigNumber string.
\<close>

definition readUnsigned :: "string \<Rightarrow> nat option" where
  "readUnsigned s =
     (if take 2 s = ''0x'' \<or> take 2 s = ''0X''
      then (if drop 2 s = [] then None else readDigits hexDigitValue 16 0 (drop 2 s))
      else (if s = [] then None else readDigits decDigitValue 10 0 s))"

definition BigNumber_from :: "string \<Rightarrow> JsError + int" where
  "BigNumber_from s =
     (case (if take 1 s = ''-'' then map_option (\<lambda>n. - int n) (readUnsigned (drop 1 s))
            else map_option int (readUnsigned s)) of
        None \<Rightarrow> Inl (Error ''invalid BigNumber string'')
      | Some i \<Rightarrow> Inr i)"

text \<open>
  \<^verbatim>\<open>BigNumber.from(n)\<close> of an integer-valued number: outside the safe range
  of a double the library reports an overflow.
\<close>

definition MAX_SAFE :: int where
  "MAX_SAFE = 9007199254740991"

definition BigNumber_fromNumber :: "int \<Rightarrow> JsError + int" where
  "BigNumber_fromNumber n =
     (if n \<ge> MAX_SAFE \<or> n \<le> - MAX_SAFE then Inl (Error ''overflow'') else Inr n)"

text \<open>
  \<^verbatim>\<open>toHexString()\<close>: the shortest hexadecimal text with an even number of
  digits, \<^verbatim>\<open>0x00\<close> for zero.
\<close>

definition evenDigits :: "string \<Rightarrow> string" where
  "evenDigits h = (if odd (length h) then CHR ''0'' # h else h)"

definition toHexString :: "int \<Rightarrow> string" where
  "toHexString i =
     (if i < 0 then ''-0x'' @ evenDigits (natToString 16 (nat (- i)))
      else ''0x'' @ evenDigits (natToString 16 (nat i)))"

text \<open>A 32-byte digest as the hashing functions print it: \<^verbatim>\<open>0x\<close> and 64 digits.\<close>

primrec hexPad :: "nat \<Rightarrow> nat \<Rightarrow> string" where
  "hexPad 0 n = []"
| "hexPad (Suc k) n = hexPad k (n div 16) @ [digitChar (n mod 16)]"

definition hexlify32 :: "256 word \<Rightarrow> string" where
  "hexlify32 w = ''0x'' @ hexPad 64 (unat w)"

section \<open>src/utils/index.ts\<close>

subsection \<open>Constants and libraries the module imports\<close>

text \<open>
  The constants of \<^verbatim>\<open>../constants\<close> are not part of the sources at hand and are
  parameters. So are the functions of ethers and web3: each may throw, and
  the hashing function of ethers returns a 32-byte digest, which the library
  prints with \<^const>\<open>hexlify32\<close>.
\<close>

record AmmAddresses =
  wethAddress :: string
  wethCodeHash :: string
  daiAddress :: string
  daiCodeHash :: string
  codeHash :: string

record Libs =
  ammAddresses :: AmmAddresses
  ROUTER_ADDRESS :: string
  FACTORY_ADDRESS :: string
  getAddress :: "string \<Rightarrow> JsError + string"
  solidityKeccak256 :: "string list \<Rightarrow> JsVal list \<Rightarrow> JsError + 256 word"
  encodeParameters :: "string list \<Rightarrow> JsVal list \<Rightarrow> JsError + string"
  soliditySha3 :: "string list \<Rightarrow> JsError + string option"

definition apostrophe :: string where
  "apostrophe = [CHR 0x27]"

definition AddressZero :: string where
  "AddressZero = ''0x'' @ replicate 40 CHR ''0''"

datatype Web3Provider = Web3Provider string

datatype SignerOrProvider = Provider Web3Provider | JsonRpcSigner Web3Provider string

datatype Abi = IUniswapV2Router02ABI | factoryABI | pairABI

record Contract =
  address :: string
  interface :: Abi
  signerOrProvider :: SignerOrProvider

subsection \<open>The code-hash cache\<close>

type_synonym CodeHashMap = "string \<rightharpoonup> string"

text \<open>
  \<^verbatim>\<open>const codeHashMap = new Map(); codeHashMap.set(weth...); codeHashMap.set(dai...)\<close>
\<close>

definition codeHashMap_init :: "AmmAddresses \<Rightarrow> CodeHashMap" where
  "codeHashMap_init amm =
     (Map.empty(wethAddress amm \<mapsto> wethCodeHash amm))(daiAddress amm \<mapsto> daiCodeHash amm)"

text \<open>
  \<^verbatim>\<open>getContractCodeHash\<close>: the \<^verbatim>\<open>else\<close> branch holds comments only, so the
  function returns \<^verbatim>\<open>undefined\<close> there. The cache is returned beside the result.
\<close>

definition getContractCodeHash :: "CodeHashMap \<Rightarrow> string \<Rightarrow> JsVal \<times> CodeHashMap" where
  "getContractCodeHash codeHashMap contractAddress =
     (if contractAddress \<in> dom codeHashMap
      then (case codeHashMap contractAddress of Some h \<Rightarrow> (JStr h, codeHashMap)
            | None \<Rightarrow> (JUndefined, codeHashMap))
      else (JUndefined, codeHashMap))"

text \<open>\<^verbatim>\<open>codeHashMap.get(key)\<close>\<close>

definition Map_get :: "CodeHashMap \<Rightarrow> string \<Rightarrow> JsVal" where
  "Map_get m k = (case m k of None \<Rightarrow> JUndefined | Some h \<Rightarrow> JStr h)"

subsection \<open>Addresses and contracts\<close>

definition isAddress :: "Libs \<Rightarrow> string \<Rightarrow> string option" where
  "isAddress lib v = (case getAddress lib v of Inl e \<Rightarrow> None | Inr a \<Rightarrow> Some a)"

definition getSigner :: "Web3Provider \<Rightarrow> string \<Rightarrow> SignerOrProvider" where
  "getSigner library account = JsonRpcSigner library account"

definition getProviderOrSigner :: "Web3Provider \<Rightarrow> string option \<Rightarrow> SignerOrProvider" where
  "getProviderOrSigner library account =
     (if truthy account then getSigner library (the account) else Provider library)"

definition getContract ::
  "Libs \<Rightarrow> string \<Rightarrow> Abi \<Rightarrow> Web3Provider \<Rightarrow> string option \<Rightarrow> JsError + Contract" where
  "getContract lib addr ABI library account =
     (if \<not> truthy (isAddress lib addr) \<or> addr = AddressZero
      then Inl (Error (''Invalid '' @ apostrophe @ ''address'' @ apostrophe @ '' parameter ''
                         @ apostrophe @ addr @ apostrophe @ ''.''))
      else Inr \<lparr>address = addr, interface = ABI,
                signerOrProvider = getProviderOrSigner library account\<rparr>)"

definition getRouterContract ::
  "Libs \<Rightarrow> nat \<Rightarrow> Web3Provider \<Rightarrow> string option \<Rightarrow> JsError + Contract" where
  "getRouterContract lib chain library account =
     getContract lib (ROUTER_ADDRESS lib) IUniswapV2Router02ABI library account"

subsection \<open>Margins\<close>

text \<open>
  \<^verbatim>\<open>value.mul(BigNumber.from(10000).add(BigNumber.from(1000))).div(BigNumber.from(10000))\<close>
\<close>

definition calculateGasMargin :: "int \<Rightarrow> int" where
  "calculateGasMargin v = bn_div (v * (10000 + 1000)) 10000"

record CurrencyAmount =
  raw :: int


subsection \<open>Storage keys\<close>

definition keccakUint :: "Libs \<Rightarrow> JsVal list \<Rightarrow> JsError + string" where
  "keccakUint lib vs =
     andThen (solidityKeccak256 lib (map (\<lambda>v. ''uint'') vs) vs) (\<lambda>digest. Inr (hexlify32 digest))"

definition getNestedStorageKey :: "Libs \<Rightarrow> string \<Rightarrow> string \<Rightarrow> string \<Rightarrow> JsError + string" where
  "getNestedStorageKey lib key1 key2 slotOfMap =
     andThen (keccakUint lib [JStr key1, JStr slotOfMap]) (\<lambda>firstLevelKey.
     keccakUint lib [JStr key2, JStr firstLevelKey])"

definition getArrayItemKey :: "Libs \<Rightarrow> int \<Rightarrow> string \<Rightarrow> JsError + string" where
  "getArrayItemKey lib index slotOfArray =
     andThen (keccakUint lib [JStr slotOfArray]) (\<lambda>slot.
     if index > 0
     then andThen (BigNumber_fromNumber index) (\<lambda>increment.
          andThen (BigNumber_from slot) (\<lambda>b.
          Inr (toHexString (b + increment))))
     else Inr slot)"

subsection \<open>The pair address\<close>

text \<open>\<^verbatim>\<open>s.split(sep).join('')\<close>: every occurrence of the separator, found from the left, is dropped.\<close>

function splitJoin :: "string \<Rightarrow> string \<Rightarrow> string" where
  "splitJoin sep s =
     (if sep = [] \<or> s = [] then s
      else if take (length sep) s = sep then splitJoin sep (drop (length sep) s)
      else hd s # splitJoin sep (tl s))"
  by pat_completeness auto
termination
  by (relation "measure (\<lambda>(sep, s). length s)") auto

declare splitJoin.simps [simp del]

definition zeros24 :: string where
  "zeros24 = replicate 24 CHR ''0''"

definition nullable :: "string option \<Rightarrow> JsVal" where
  "nullable v = (case v of None \<Rightarrow> JNull | Some s \<Rightarrow> JStr s)"

text \<open>
  \<^verbatim>\<open>getPair\<close>. The import \<^verbatim>\<open>Web3\<close> is a class, hence truthy, and building the
  \<^verbatim>\<open>web3\<close> object calls nothing that throws. Every exception inside the
  \<^verbatim>\<open>try\<close> block, that of \<^verbatim>\<open>null.substr\<close> included, ends in the handler, which
  returns \<^verbatim>\<open>null\<close>; the early \<^verbatim>\<open>return\<close> on an empty code hash gives
  \<^verbatim>\<open>undefined\<close>. The comparison of two strings is that of their code units.
\<close>

definition getPair :: "Libs \<Rightarrow> string \<Rightarrow> string \<Rightarrow> string \<Rightarrow> string \<Rightarrow> JsVal" where
  "getPair lib tokenA tokenB factory hash =
     (let (token0, token1) = (if tokenA < tokenB then (tokenA, tokenB) else (tokenB, tokenA)) in
      case
        andThen (encodeParameters lib [''address'', ''address''] [JStr token0, JStr token1])
          (\<lambda>abiEncoded1.
        andThen (soliditySha3 lib [splitJoin zeros24 abiEncoded1]) (\<lambda>salt.
        andThen (encodeParameters lib [''address'', ''bytes32''] [JStr factory, nullable salt])
          (\<lambda>abiEncoded2.
        let abiEncoded2' = drop 2 (splitJoin zeros24 abiEncoded2) in
        if hash = [] then Inr JUndefined
        else andThen (soliditySha3 lib [''0xff'' @ abiEncoded2', hash]) (\<lambda>digest.
             case digest of
               None \<Rightarrow> Inl (Error ''Cannot read properties of null'')
             | Some h \<Rightarrow>
                 (let pairAddress = drop 26 h in
                  if pairAddress \<noteq> [] then Inr (JStr (''0x'' @ pairAddress)) else Inr JNull)))))
      of Inl e \<Rightarrow> JNull | Inr v \<Rightarrow> v)"

subsection \<open>The access list\<close>

record TradeAddresses =
  routerAddress :: string
  factoryAddress :: string
  address1 :: string
  address2 :: string
  from' :: string

type_synonym AccessList = "(JsVal \<times> JsVal list) list"

definition slotLiteral :: "string \<Rightarrow> JsVal" where
  "slotLiteral lastDigits = JStr (''0x'' @ replicate (64 - length lastDigits) CHR ''0'' @ lastDigits)"

text \<open>
  \<^verbatim>\<open>generateAccessList\<close>. The function reads the cache and leaves it as it was;
  the cache is returned beside the result. A hashing call that throws rejects
  the promise. The calls are made in the order of the source: the keys bound to
  constants first, then those written inside the array literal.
\<close>

definition generateAccessList ::
  "Libs \<Rightarrow> CodeHashMap \<Rightarrow> TradeAddresses \<Rightarrow> (JsError + AccessList) \<times> CodeHashMap" where
  "generateAccessList lib codeHashMap tradeAddresses =
     (let account = from' tradeAddresses;
          pairAddress = getPair lib (address1 tradeAddresses) (address2 tradeAddresses)
                          (factoryAddress tradeAddresses) (codeHash (ammAddresses lib));
          zeroAddress = ''0x'' @ replicate 40 CHR ''0'';
          balanceMapSlot = ''0x1'';
          allPairLength = 1
      in
      (andThen (keccakUint lib [JStr account, JStr balanceMapSlot]) (\<lambda>senderBalanceKey.
       andThen (keccakUint lib [JStr zeroAddress, JStr balanceMapSlot]) (\<lambda>pairBalanceKey.
       andThen (keccakUint lib [JStr account, JStr ''0x1'']) (\<lambda>allowKeyOfSender.
       andThen (keccakUint lib [JStr (routerAddress tradeAddresses), JStr allowKeyOfSender])
         (\<lambda>allowKeyOfSenderForPair.
       andThen (getNestedStorageKey lib (address1 tradeAddresses) (address2 tradeAddresses) ''0x2'')
         (\<lambda>token_0_1_key.
       andThen (getNestedStorageKey lib (address2 tradeAddresses) (address1 tradeAddresses) ''0x2'')
         (\<lambda>token_1_0_key.
       andThen (getArrayItemKey lib allPairLength ''0x3'') (\<lambda>allPairKey.
       andThen (keccakUint lib [JStr (routerAddress tradeAddresses), JStr ''0x3'']) (\<lambda>routerKey1.
       andThen (keccakUint lib [pairAddress, JStr ''0x3'']) (\<lambda>pairKey1.
       andThen (keccakUint lib [JStr account, JStr ''0x0'']) (\<lambda>accountKey1.
       andThen (keccakUint lib [pairAddress, JStr ''0x0'']) (\<lambda>pairZeroKey1.
       andThen (keccakUint lib [JStr (routerAddress tradeAddresses), JStr ''0x3'']) (\<lambda>routerKey2.
       andThen (keccakUint lib [pairAddress, JStr ''0x3'']) (\<lambda>pairKey2.
       andThen (keccakUint lib [JStr account, JStr ''0x0'']) (\<lambda>accountKey2.
       andThen (keccakUint lib [pairAddress, JStr ''0x0'']) (\<lambda>pairZeroKey2.
       Inr
        [(pairAddress,
          [slotLiteral ''0'', slotLiteral ''3'', slotLiteral ''5'', slotLiteral ''6'',
           slotLiteral ''7'', slotLiteral ''8'', slotLiteral ''9'', slotLiteral ''a'',
           slotLiteral ''c'',
           JStr senderBalanceKey,
           JStr pairBalanceKey,
           JStr ''0xb2b81c15af25defa7f931953dc35a7a411b46f9e890702354a2899d421608c23'']),
         (JStr (address1 tradeAddresses),
          [JStr routerKey1, JStr pairKey1, JStr allowKeyOfSenderForPair, JStr accountKey1,
           JStr pairZeroKey1, Map_get codeHashMap (address1 tradeAddresses)]),
         (JStr (address2 tradeAddresses),
          [JStr routerKey2, JStr pairKey2, JStr allowKeyOfSenderForPair, JStr accountKey2,
           JStr pairZeroKey2, Map_get codeHashMap (address2 tradeAddresses)]),
         (JStr (factoryAddress tradeAddresses),
          [slotLiteral ''3'', JStr token_0_1_key, JStr token_1_0_key, JStr allPairKey,
           JStr ''0x3ceed391ae304e8dc31737fba00513c69846aba35d763fe6a069afbbbd727ca3''])]
       ))))))))))))))),
       codeHashMap))"

section \<open>hooks/useSwapCallback.ts\<close>

subsection \<open>Data\<close>

datatype SwapCallbackState = INVALID | LOADING | VALID

datatype TradeType = EXACT_INPUT | EXACT_OUTPUT

text \<open>The trade comes from the routing library; the hook reads its type only.\<close>

record Trade =
  tradeType :: TradeType
  inputAmount :: CurrencyAmount
  outputAmount :: CurrencyAmount

datatype Arg = Str string | Strs "string list"

record SwapParameters =
  methodName :: string
  args :: "Arg list"
  value' :: string

record Percent =
  numerator :: int
  denominator :: int

record TradeOptions =
  feeOnTransfer :: bool
  allowedSlippage :: Percent
  recipient :: string
  deadline :: int

record SwapCall =
  contract :: Contract
  parameters :: SwapParameters

datatype EstimatedSwapCall =
    SuccessfulCall SwapCall int
  | FailedCall SwapCall JsError

text \<open>The options object of a contract call: every key may be missing.\<close>

record Overrides =
  optGasLimit :: "int option"
  optValue :: "string option"
  optFrom :: "string option"

datatype JsNumber = NaN | Num int

record Signature =
  sig_r :: string
  sig_s :: string
  sig_v :: JsNumber

text \<open>
  A transaction object, as \<^verbatim>\<open>populateTransaction\<close> returns it and as the
  callback completes it; a key that is not set is \<^const>\<open>None\<close>.
\<close>

record Transaction =
  to :: "string option"
  data :: "string option"
  txValue :: "int option"
  gasLimit :: "int option"
  txFrom :: "string option"
  txChainId :: "int option"
  gasPrice :: "int option"
  nonce :: "JsNumber option"
  txType :: "int option"
  accessList :: "AccessList option"
  hash :: "string option"

subsection \<open>The surroundings of the hook\<close>

text \<open>
  What the other hooks return, the constants, and the two library functions
  that build the call parameters: \<^verbatim>\<open>Router.swapCallParameters\<close> of the SDK and
  \<^verbatim>\<open>toNumber\<close> of a BigNumber. Both may throw.
\<close>

record Hooks =
  account :: "string option"
  chainId :: "nat option"
  library :: "Web3Provider option"
  useENS :: "string option \<Rightarrow> string option"
  useTransactionDeadline :: "int option"
  INITIAL_ALLOWED_SLIPPAGE :: int
  BIPS_BASE :: int
  swapCallParameters :: "Trade \<Rightarrow> TradeOptions \<Rightarrow> JsError + SwapParameters"
  toNumber :: "int \<Rightarrow> JsError + int"

text \<open>The injected wallet, \<^verbatim>\<open>window.ethereum\<close>.\<close>

record Ethereum =
  selectedAddress :: JsVal
  eth_getTransactionCount :: "string option \<Rightarrow> JsError + string"
  eth_requestAccounts :: "JsError + string list"
  eth_sign :: "JsVal \<Rightarrow> string \<Rightarrow> JsError + string"

text \<open>
  The node behind the contract object and the remaining library functions.
  A call that rejects or throws returns its error on the left.
\<close>

record Chain =
  estimateGas :: "Contract \<Rightarrow> string \<Rightarrow> Arg list \<Rightarrow> Overrides \<Rightarrow> JsError + int"
  callStatic :: "Contract \<Rightarrow> string \<Rightarrow> Arg list \<Rightarrow> Overrides \<Rightarrow> JsError + JsVal"
  populateTransaction :: "Contract \<Rightarrow> string \<Rightarrow> Arg list \<Rightarrow> Overrides \<Rightarrow> JsError + Transaction"
  isZero :: "string \<Rightarrow> bool"
  ethereum :: "Ethereum option"
  parseInt :: "string \<Rightarrow> nat \<Rightarrow> JsNumber"
  serializeTransaction :: "Transaction \<Rightarrow> Signature option \<Rightarrow> JsError + string"
  keccak256 :: "string \<Rightarrow> JsError + string"
  sendTransaction :: "string \<Rightarrow> JsError + string"

subsection \<open>useSwapCallArguments\<close>

definition truthyNumber :: "nat option \<Rightarrow> bool" where
  "truthyNumber n = (case n of None \<Rightarrow> False | Some k \<Rightarrow> k \<noteq> 0)"

definition tradeOptions :: "Hooks \<Rightarrow> bool \<Rightarrow> int \<Rightarrow> string \<Rightarrow> int \<Rightarrow> TradeOptions" where
  "tradeOptions hooks fot slippage rcpt dl =
     \<lparr>feeOnTransfer = fot,
      allowedSlippage = \<lparr>numerator = slippage, denominator = BIPS_BASE hooks\<rparr>,
      recipient = rcpt,
      deadline = dl\<rparr>"

text \<open>
  The first step is the \<^verbatim>\<open>console.log\<close> of the deadline, which converts it
  when it is there. The memoised function follows: the guard, the router
  contract, the plain parameters and, for an exact-input trade, those of the
  fee-on-transfer variant.
\<close>

definition useSwapCallArguments ::
  "Libs \<Rightarrow> Hooks \<Rightarrow> Trade option \<Rightarrow> int option \<Rightarrow> string option \<Rightarrow> JsError + SwapCall list" where
  "useSwapCallArguments lib hooks trade allowedSlippageArg recipientAddressOrName =
     (let slippage = (case allowedSlippageArg of None \<Rightarrow> INITIAL_ALLOWED_SLIPPAGE hooks
                      | Some a \<Rightarrow> a);
          recipientAddress = useENS hooks recipientAddressOrName;
          rcpt = (if recipientAddressOrName = None then account hooks else recipientAddress)
      in
      andThen (case useTransactionDeadline hooks of
                 None \<Rightarrow> Inr 0
               | Some d \<Rightarrow> toNumber hooks d) (\<lambda>logged.
      case (trade, rcpt, library hooks, useTransactionDeadline hooks) of
        (Some t, Some r, Some l, Some d) \<Rightarrow>
          if r = [] \<or> \<not> truthy (account hooks) \<or> \<not> truthyNumber (chainId hooks) then Inr []
          else
            andThen (getRouterContract lib (case chainId hooks of Some c \<Rightarrow> c | None \<Rightarrow> 0)
                       l (account hooks)) (\<lambda>c.
            andThen (toNumber hooks d) (\<lambda>dl.
            andThen (swapCallParameters hooks t (tradeOptions hooks False slippage r dl)) (\<lambda>plain.
            andThen (if tradeType t = EXACT_INPUT
                     then andThen (toNumber hooks d) (\<lambda>dl2.
                          andThen (swapCallParameters hooks t (tradeOptions hooks True slippage r dl2))
                            (\<lambda>fot. Inr [plain, fot]))
                     else Inr [plain]) (\<lambda>swapMethods.
            Inr (map (\<lambda>p. \<lparr>contract = c, parameters = p\<rparr>) swapMethods)))))
      | _ \<Rightarrow> Inr []))"

subsection \<open>Gas estimation and diagnosis\<close>

text \<open>\<^verbatim>\<open>!value || isZero(value) ? {} : { value }\<close>\<close>

definition estimateOptions :: "Chain \<Rightarrow> string \<Rightarrow> Overrides" where
  "estimateOptions chain v =
     (if v = [] \<or> isZero chain v
      then \<lparr>optGasLimit = None, optValue = None, optFrom = None\<rparr>
      else \<lparr>optGasLimit = None, optValue = Some v, optFrom = None\<rparr>)"

text \<open>A template literal prints a missing reason as \<^verbatim>\<open>undefined\<close>.\<close>

definition templateString :: "string option \<Rightarrow> string" where
  "templateString v = (case v of None \<Rightarrow> ''undefined'' | Some s \<Rightarrow> s)"

text \<open>The \<^verbatim>\<open>switch\<close> on \<^verbatim>\<open>callError.reason\<close>.\<close>

definition errorMessage :: "string option \<Rightarrow> string" where
  "errorMessage callReason =
     (if callReason = Some ''SwapRouterV2: INSUFFICIENT_OUTPUT_AMOUNT''
         \<or> callReason = Some ''SwapRouterV2: EXCESSIVE_INPUT_AMOUNT''
      then ''This transaction will not succeed either due to price movement or fee on transfer. Try increasing your slippage tolerance.''
      else ''The transaction cannot succeed due to error: '' @ templateString callReason
           @ ''. This is probably an issue with one of the tokens you are swapping.'')"

text \<open>
  The function mapped over \<^verbatim>\<open>swapCalls\<close>: the estimate, and after a failed
  estimate the static call with the same method, arguments and options.
\<close>

definition estimateCall :: "Chain \<Rightarrow> SwapCall \<Rightarrow> EstimatedSwapCall" where
  "estimateCall chain call =
     (let p = parameters call;
          options = estimateOptions chain (value' p)
      in case estimateGas chain (contract call) (methodName p) (args p) options of
           Inr gasEstimate \<Rightarrow> SuccessfulCall call gasEstimate
         | Inl gasError \<Rightarrow>
             (case callStatic chain (contract call) (methodName p) (args p) options of
                Inr result \<Rightarrow>
                  FailedCall call
                    (Error ''Unexpected issue with estimating the gas. Please try again.'')
              | Inl callError \<Rightarrow>
                  FailedCall call (Error (errorMessage (reason callError)))))"

subsection \<open>Selection\<close>

text \<open>
  \<^verbatim>\<open>Array.prototype.find\<close>: the callback sees the element, its index and the
  whole array; the first element it accepts is returned, with its index here.
\<close>

primrec findFrom ::
  "('a \<Rightarrow> nat \<Rightarrow> 'a list \<Rightarrow> bool) \<Rightarrow> 'a list \<Rightarrow> nat \<Rightarrow> 'a list \<Rightarrow> (nat \<times> 'a) option" where
  "findFrom p list ix [] = None"
| "findFrom p list ix (el # rest) =
     (if p el ix list then Some (ix, el) else findFrom p list (Suc ix) rest)"

definition array_findIndexed :: "('a \<Rightarrow> nat \<Rightarrow> 'a list \<Rightarrow> bool) \<Rightarrow> 'a list \<Rightarrow> (nat \<times> 'a) option" where
  "array_findIndexed p list = findFrom p list 0 list"

definition array_find :: "('a \<Rightarrow> nat \<Rightarrow> 'a list \<Rightarrow> bool) \<Rightarrow> 'a list \<Rightarrow> 'a option" where
  "array_find p list = map_option snd (array_findIndexed p list)"

text \<open>\<^verbatim>\<open>'gasEstimate' in el\<close> and \<^verbatim>\<open>'error' in call\<close>\<close>

fun hasGasEstimate :: "EstimatedSwapCall \<Rightarrow> bool" where
  "hasGasEstimate (SuccessfulCall c g) = True"
| "hasGasEstimate (FailedCall c e) = False"

fun hasError :: "EstimatedSwapCall \<Rightarrow> bool" where
  "hasError (SuccessfulCall c g) = False"
| "hasError (FailedCall c e) = True"

text \<open>
  The callback of \<^verbatim>\<open>find\<close>. The right operand of \<^verbatim>\<open>||\<close> is evaluated only when
  the index is not the last one, so \<^verbatim>\<open>list[ix + 1]\<close> is an element of the array.
\<close>

definition successful :: "EstimatedSwapCall \<Rightarrow> nat \<Rightarrow> EstimatedSwapCall list \<Rightarrow> bool" where
  "successful el ix list =
     (hasGasEstimate el \<and> (int ix = int (length list) - 1 \<or> hasGasEstimate (list ! (ix + 1))))"

definition successfulEstimation :: "EstimatedSwapCall list \<Rightarrow> EstimatedSwapCall option" where
  "successfulEstimation estimatedCalls = array_find successful estimatedCalls"

subsection \<open>The transaction\<close>

text \<open>
  \<^verbatim>\<open>{ gasLimit: calculateGasMargin(gasEstimate),
     ...(value && !isZero(value) ? { value, from: account } : { from: account }) }\<close>
\<close>

definition swapOverrides :: "Chain \<Rightarrow> string option \<Rightarrow> string \<Rightarrow> int \<Rightarrow> Overrides" where
  "swapOverrides chain acct v gasEstimate =
     (if v \<noteq> [] \<and> \<not> isZero chain v
      then \<lparr>optGasLimit = Some (calculateGasMargin gasEstimate), optValue = Some v, optFrom = acct\<rparr>
      else \<lparr>optGasLimit = Some (calculateGasMargin gasEstimate), optValue = None, optFrom = acct\<rparr>)"

text \<open>\<^verbatim>\<open>args[1][0]\<close>: an index into a string gives one character, one past the end gives \<^verbatim>\<open>undefined\<close>.\<close>

definition elementAt :: "Arg \<Rightarrow> nat \<Rightarrow> string option" where
  "elementAt a i =
     (case a of
        Str s \<Rightarrow> (if i < length s then Some [s ! i] else None)
      | Strs l \<Rightarrow> (if i < length l then Some (l ! i) else None))"

text \<open>\<^verbatim>\<open>ethers.utils.parseEther('0.000000011')\<close>, in wei.\<close>

definition testGasPrice :: int where
  "testGasPrice = 11000000000"

text \<open>
  The first half of the test-mode block, up to the transaction object. The
  access list hashes every address as a number and ethers rejects
  \<^verbatim>\<open>undefined\<close> there, so a missing address ends the block; so does a missing
  \<^verbatim>\<open>args[1]\<close> and a missing \<^verbatim>\<open>response.value\<close>, whose members are read.
\<close>

definition testModeTransaction ::
  "Libs \<Rightarrow> Chain \<Rightarrow> CodeHashMap \<Rightarrow> Ethereum \<Rightarrow> Transaction \<Rightarrow> Arg list \<Rightarrow> JsError + Transaction" where
  "testModeTransaction lib chain codeHashMap eth response as =
     (if length as < 2 then Inl (Error ''Cannot read properties of undefined'')
      else
        (case (elementAt (as ! 1) 0, elementAt (as ! 1) 1, txFrom response) of
           (Some a1, Some a2, Some sender) \<Rightarrow>
             andThen (fst (generateAccessList lib codeHashMap
                        \<lparr>routerAddress = ROUTER_ADDRESS lib, factoryAddress = FACTORY_ADDRESS lib,
                         address1 = a1, address2 = a2, from' = sender\<rparr>)) (\<lambda>al.
             andThen (case txValue response of
                        None \<Rightarrow> Inl (Error ''Cannot read properties of undefined'')
                      | Some v \<Rightarrow> Inr (numberToString v)) (\<lambda>originalValue.
             andThen (eth_getTransactionCount eth (txFrom response)) (\<lambda>count.
             andThen (BigNumber_from originalValue) (\<lambda>v.
             Inr (response\<lparr>txValue := Some v,
                           txChainId := Some 8080,
                           gasPrice := Some testGasPrice,
                           gasLimit := Some 300000,
                           nonce := Some (parseInt chain count 16),
                           txType := Some 1,
                           accessList := Some al,
                           txFrom := None\<rparr>)))))
         | _ \<Rightarrow> Inl (Error ''invalid BigNumber value'')))"

text \<open>The second half: hash, signature, signed serialisation, broadcast.\<close>

definition testModeSend :: "Chain \<Rightarrow> Ethereum \<Rightarrow> Transaction \<Rightarrow> JsError + (Signature \<times> string)" where
  "testModeSend chain eth transaction =
     andThen (serializeTransaction chain transaction None) (\<lambda>serialized.
     andThen (keccak256 chain serialized) (\<lambda>msg.
     andThen (eth_requestAccounts eth) (\<lambda>accounts.
     andThen (eth_sign eth (selectedAddress eth) msg) (\<lambda>signature0.
     let signature = drop 2 signature0;
         sigObj = \<lparr>sig_r = ''0x'' @ take 64 signature,
                   sig_s = ''0x'' @ take 64 (drop 64 signature),
                   sig_v = parseInt chain (take 2 (drop 128 signature)) 16\<rparr>
     in
     andThen (serializeTransaction chain transaction (Some sigObj)) (\<lambda>serializedSignedTx.
     andThen (sendTransaction chain serializedSignedTx) (\<lambda>h.
     Inr (sigObj, h)))))))"

subsection \<open>The callback\<close>

text \<open>
  What a run of \<^verbatim>\<open>onSwap\<close> leaves behind: the promise it returns, rejected with
  an error or resolved with a hash (or \<^verbatim>\<open>undefined\<close>), and the transaction whose
  signed serialisation the provider accepted, if there is one.
\<close>

record SwapOutcome =
  returned :: "JsError + string option"
  submitted :: "(Transaction \<times> Signature) option"

definition rejects :: "JsError \<Rightarrow> SwapOutcome" where
  "rejects e = \<lparr>returned = Inl e, submitted = None\<rparr>"

definition onSwap ::
  "Libs \<Rightarrow> Chain \<Rightarrow> CodeHashMap \<Rightarrow> string option \<Rightarrow> SwapCall list \<Rightarrow> SwapOutcome" where
  "onSwap lib chain codeHashMap acct swapCalls =
     (let estimatedCalls = map (estimateCall chain) swapCalls in
      case successfulEstimation estimatedCalls of
        None \<Rightarrow>
          (let errorCalls = filter hasError estimatedCalls in
           if length errorCalls > 0
           then (case last errorCalls of
                   FailedCall c e \<Rightarrow> rejects e
                 | SuccessfulCall c g \<Rightarrow> rejects (Error ''undefined''))
           else rejects (Error
                  ''Unexpected error. Please contact support: none of the calls threw an error''))
      | Some (FailedCall c e) \<Rightarrow> rejects (Error ''Cannot read properties of undefined'')
      | Some (SuccessfulCall call gasEstimate) \<Rightarrow>
          (let p = parameters call in
           case populateTransaction chain (contract call) (methodName p) (args p)
                  (swapOverrides chain acct (value' p) gasEstimate) of
             Inl error \<Rightarrow>
               (if code error = Some 4001 then rejects (Error ''Transaction rejected.'')
                else rejects (Error (''Swap failed: '' @ message error)))
           | Inr response \<Rightarrow>
               (case ethereum chain of
                  None \<Rightarrow> \<lparr>returned = Inr None, submitted = None\<rparr>
                | Some eth \<Rightarrow>
                    (case andThen (testModeTransaction lib chain codeHashMap eth response (args p))
                            (\<lambda>transaction.
                          andThen (testModeSend chain eth transaction) (\<lambda>(sigObj, h).
                          Inr (transaction, sigObj, h))) of
                       Inl e \<Rightarrow> \<lparr>returned = Inr (hash response), submitted = None\<rparr>
                     | Inr (transaction, sigObj, h) \<Rightarrow>
                         \<lparr>returned = Inr (Some h), submitted = Some (transaction, sigObj)\<rparr>))))"

subsection \<open>useSwapCallback\<close>

record SwapCallback =
  state :: SwapCallbackState
  callback :: "SwapOutcome option"
  error :: "string option"

text \<open>
  The hook itself. The callback is a function without arguments; the record
  holds the outcome of calling it.
\<close>

definition useSwapCallback ::
  "Libs \<Rightarrow> Hooks \<Rightarrow> Chain \<Rightarrow> CodeHashMap \<Rightarrow> Trade option \<Rightarrow> int option \<Rightarrow> string option
     \<Rightarrow> JsError + SwapCallback" where
  "useSwapCallback lib hooks chain codeHashMap trade allowedSlippageArg recipientAddressOrName =
     andThen (useSwapCallArguments lib hooks trade allowedSlippageArg recipientAddressOrName)
       (\<lambda>swapCalls.
     let recipientAddress = useENS hooks recipientAddressOrName;
         rcpt = (if recipientAddressOrName = None then account hooks else recipientAddress)
     in
     if trade = None \<or> library hooks = None \<or> \<not> truthy (account hooks)
          \<or> \<not> truthyNumber (chainId hooks)
     then Inr \<lparr>state = INVALID, callback = None, error = Some ''Missing dependencies''\<rparr>
     else if \<not> truthy rcpt
     then (if recipientAddressOrName \<noteq> None
           then Inr \<lparr>state = INVALID, callback = None, error = Some ''Invalid recipient''\<rparr>
           else Inr \<lparr>state = LOADING, callback = None, error = None\<rparr>)
     else Inr \<lparr>state = VALID,
               callback = Some (onSwap lib chain codeHashMap (account hooks) swapCalls),
               error = None\<rparr>)"

section \<open>Vocabulary of the specification\<close>

text \<open>
  The selection rule in the words of the specification: the outcome at index
  \<open>i\<close> is a success, and \<open>i\<close> is the last index or the outcome after it is a
  success as well.
\<close>

definition selectable :: "EstimatedSwapCall list \<Rightarrow> nat \<Rightarrow> bool" where
  "selectable outcomes i =
     (i < length outcomes \<and> hasGasEstimate (outcomes ! i)
      \<and> (i + 1 = length outcomes \<or> hasGasEstimate (outcomes ! (i + 1))))"

section \<open>A concrete environment\<close>

text \<open>A router contract and two candidate calls, used to run the definitions.\<close>

definition exampleContract :: Contract where
  "exampleContract =
     \<lparr>address = ''0x7a250d5630B4cF539739dF2C5dAcb4c659F2488D'',
      interface = IUniswapV2Router02ABI,
      signerOrProvider = JsonRpcSigner (Web3Provider ''injected'') ''0xa1''\<rparr>"

definition exampleCall :: SwapCall where
  "exampleCall =
     \<lparr>contract = exampleContract,
      parameters = \<lparr>methodName = ''swapExactETHForTokens'',
                    args = [Str ''0x64'', Strs [''0xc0'', ''0xd1''], Str ''0xa1'', Str ''0x6543''],
                    value' = ''0x0de0b6b3a7640000''\<rparr>\<rparr>"

definition exampleCallFeeOnTransfer :: SwapCall where
  "exampleCallFeeOnTransfer =
     \<lparr>contract = exampleContract,
      parameters = \<lparr>methodName = ''swapExactETHForTokensSupportingFeeOnTransferTokens'',
                    args = [Str ''0x64'', Strs [''0xc0'', ''0xd1''], Str ''0xa1'', Str ''0x6543''],
                    value' = ''0x0de0b6b3a7640000''\<rparr>\<rparr>"



definition exampleAmm :: AmmAddresses where
  "exampleAmm =
     \<lparr>wethAddress = ''0xc0'', wethCodeHash = ''0x11'',
      daiAddress = ''0xd1'', daiCodeHash = ''0x22'',
      codeHash = ''0x33''\<rparr>"




section \<open>Properties\<close>

subsection \<open>Hexadecimal text\<close>











subsection \<open>The search of \<^verbatim>\<open>find\<close>\<close>

lemma findFrom_Some:
  "findFrom p list ix rest = Some (i, el) \<longleftrightarrow>
     (\<exists>k<length rest. i = ix + k \<and> el = rest ! k \<and> p (rest ! k) (ix + k) list
        \<and> (\<forall>m<k. \<not> p (rest ! m) (ix + m) list))"
proof (induction rest arbitrary: ix)
  case Nil
  then show ?case by simp
next
  case (Cons x rest)
  show ?case
  proof (cases "p x ix list")
    case True
    have "(\<exists>k<length (x # rest). i = ix + k \<and> el = (x # rest) ! k
             \<and> p ((x # rest) ! k) (ix + k) list
             \<and> (\<forall>m<k. \<not> p ((x # rest) ! m) (ix + m) list)) \<longleftrightarrow> i = ix \<and> el = x" (is "?R \<longleftrightarrow> _")
    proof
      assume ?R
      then obtain k where k: "i = ix + k" "el = (x # rest) ! k"
        "\<forall>m<k. \<not> p ((x # rest) ! m) (ix + m) list"
        by blast
      have "k = 0"
      proof (rule ccontr)
        assume "k \<noteq> 0"
        then have "\<not> p ((x # rest) ! 0) (ix + 0) list" using k(3) by blast
        with True show False by simp
      qed
      with k show "i = ix \<and> el = x" by simp
    next
      assume "i = ix \<and> el = x"
      with True show ?R
        by (intro exI [of _ 0]) simp
    qed
    with True show ?thesis
      by auto
  next
    case False
    have "(\<exists>k<length rest. i = Suc ix + k \<and> el = rest ! k \<and> p (rest ! k) (Suc ix + k) list
             \<and> (\<forall>m<k. \<not> p (rest ! m) (Suc ix + m) list))
          \<longleftrightarrow> (\<exists>k<length (x # rest). i = ix + k \<and> el = (x # rest) ! k
                \<and> p ((x # rest) ! k) (ix + k) list
                \<and> (\<forall>m<k. \<not> p ((x # rest) ! m) (ix + m) list))" (is "?L \<longleftrightarrow> ?R")
    proof
      assume ?L
      then obtain k where k: "k < length rest" "i = Suc ix + k" "el = rest ! k"
        "p (rest ! k) (Suc ix + k) list" "\<forall>m<k. \<not> p (rest ! m) (Suc ix + m) list"
        by blast
      have "\<forall>m<Suc k. \<not> p ((x # rest) ! m) (ix + m) list"
      proof (intro allI impI)
        fix m assume "m < Suc k"
        then show "\<not> p ((x # rest) ! m) (ix + m) list"
          using False k(5) by (cases m) auto
      qed
      with k show ?R
        by (intro exI [of _ "Suc k"]) simp
    next
      assume ?R
      then obtain k where k: "k < length (x # rest)" "i = ix + k" "el = (x # rest) ! k"
        "p ((x # rest) ! k) (ix + k) list" "\<forall>m<k. \<not> p ((x # rest) ! m) (ix + m) list"
        by blast
      with False obtain k' where k': "k = Suc k'"
        by (cases k) auto
      have "\<forall>m<k'. \<not> p (rest ! m) (Suc ix + m) list"
      proof (intro allI impI)
        fix m assume "m < k'"
        then have "Suc m < k" using k' by simp
        with k(5) show "\<not> p (rest ! m) (Suc ix + m) list"
          by fastforce
      qed
      with k k' show ?L
        by (intro exI [of _ k']) simp
    qed
    with False Cons.IH [of "Suc ix"] show ?thesis
      by simp
  qed
qed

lemma findFrom_None:
  "findFrom p list ix rest = None \<longleftrightarrow> (\<forall>k<length rest. \<not> p (rest ! k) (ix + k) list)"
proof (induction rest arbitrary: ix)
  case Nil
  then show ?case by simp
next
  case (Cons x rest)
  have "(\<forall>k<length (x # rest). \<not> p ((x # rest) ! k) (ix + k) list)
        \<longleftrightarrow> \<not> p x ix list \<and> (\<forall>k<length rest. \<not> p (rest ! k) (Suc ix + k) list)"
    by (auto simp: All_less_Suc2 less_Suc_eq_0_disj)
  with Cons.IH [of "Suc ix"] show ?case
    by simp
qed

lemma successful_selectable:
  "i < length outcomes \<Longrightarrow> successful (outcomes ! i) i outcomes \<longleftrightarrow> selectable outcomes i"
  by (auto simp: successful_def selectable_def)

lemma selectable_less: "selectable outcomes i \<Longrightarrow> i < length outcomes"
  by (simp add: selectable_def)

lemma array_findIndexed_successful_Some:
  "array_findIndexed successful outcomes = Some (i, el) \<longleftrightarrow>
     selectable outcomes i \<and> (\<forall>j<i. \<not> selectable outcomes j) \<and> el = outcomes ! i"
proof
  assume "array_findIndexed successful outcomes = Some (i, el)"
  then have i: "i < length outcomes" "el = outcomes ! i" "successful (outcomes ! i) i outcomes"
    and before: "\<forall>m<i. \<not> successful (outcomes ! m) m outcomes"
    by (auto simp: array_findIndexed_def findFrom_Some)
  have "\<not> selectable outcomes j" if "j < i" for j
    using that before i(1) successful_selectable [of j outcomes] by auto
  with i show "selectable outcomes i \<and> (\<forall>j<i. \<not> selectable outcomes j) \<and> el = outcomes ! i"
    by (simp add: successful_selectable)
next
  assume r: "selectable outcomes i \<and> (\<forall>j<i. \<not> selectable outcomes j) \<and> el = outcomes ! i"
  then have i: "i < length outcomes"
    by (simp add: selectable_less)
  have "\<not> successful (outcomes ! m) m outcomes" if "m < i" for m
    using that r i successful_selectable [of m outcomes] by auto
  with r i show "array_findIndexed successful outcomes = Some (i, el)"
    by (simp add: array_findIndexed_def findFrom_Some successful_selectable)
qed

lemma array_findIndexed_successful_None:
  "array_findIndexed successful outcomes = None \<longleftrightarrow> (\<forall>i. \<not> selectable outcomes i)"
proof -
  have "(\<forall>k<length outcomes. \<not> successful (outcomes ! k) k outcomes)
        \<longleftrightarrow> (\<forall>i. \<not> selectable outcomes i)"
    using successful_selectable selectable_less by blast
  then show ?thesis
    by (simp add: array_findIndexed_def findFrom_None)
qed

lemma successful_examples:
  "array_findIndexed successful [SuccessfulCall c0 100, SuccessfulCall c1 120]
     = Some (0, SuccessfulCall c0 100)"
  "array_findIndexed successful [FailedCall c0 e, SuccessfulCall c1 120]
     = Some (1, SuccessfulCall c1 120)"
  "array_findIndexed successful [SuccessfulCall c0 100, FailedCall c1 e] = None"
  by (simp_all add: array_findIndexed_def successful_def)

text \<open>
  C1. The candidate selector scans the outcomes in candidate order and takes
  the first index whose outcome is a success and which is the last index or is
  followed by a success. For two successes it takes index 0, for a failure
  followed by a success index 1, for a success followed by a failure nothing.
\<close>

theorem selector_first_selectable:
  "(array_findIndexed successful outcomes = Some (i, el) \<longleftrightarrow>
      selectable outcomes i \<and> (\<forall>j<i. \<not> selectable outcomes j) \<and> el = outcomes ! i)
   \<and> (array_findIndexed successful outcomes = None \<longleftrightarrow> (\<forall>k. \<not> selectable outcomes k))
   \<and> successfulEstimation outcomes = map_option snd (array_findIndexed successful outcomes)
   \<and> array_findIndexed successful [SuccessfulCall c0 100, SuccessfulCall c1 120]
       = Some (0, SuccessfulCall c0 100)
   \<and> array_findIndexed successful [FailedCall c0 e, SuccessfulCall c1 120]
       = Some (1, SuccessfulCall c1 120)
   \<and> successfulEstimation [SuccessfulCall c0 100, FailedCall c1 e] = None"
  using array_findIndexed_successful_Some [of outcomes i el]
    array_findIndexed_successful_None [of outcomes]
  by (simp add: successfulEstimation_def array_find_def successful_examples)

theorem selector_first_selectable_witness:
  "selectable [FailedCall exampleCall (Error ''reverted''),
               SuccessfulCall exampleCallFeeOnTransfer 120] 1
   \<and> \<not> selectable [FailedCall exampleCall (Error ''reverted''),
                     SuccessfulCall exampleCallFeeOnTransfer 120] 0
   \<and> array_findIndexed successful
        [FailedCall exampleCall (Error ''reverted''),
         SuccessfulCall exampleCallFeeOnTransfer 120]
       = Some (1, SuccessfulCall exampleCallFeeOnTransfer 120)"
  using selector_first_selectable
    [of "[FailedCall exampleCall (Error ''reverted''),
          SuccessfulCall exampleCallFeeOnTransfer 120]" 1
        "SuccessfulCall exampleCallFeeOnTransfer 120"]
  by (simp add: selectable_def)

subsection \<open>Slippage and gas margin\<close>




subsection \<open>Sequencing\<close>

lemma andThen_Inr [simp]: "andThen (Inr x) f = f x"
  by (simp add: andThen_def)

lemma andThen_Inl [simp]: "andThen (Inl e) f = Inl e"
  by (simp add: andThen_def)


subsection \<open>The pair address\<close>

text \<open>
  C7. The pair address does not depend on the order of the two tokens: the
  smaller identifier is always encoded first.
\<close>

theorem getPair_order_independent:
  "getPair lib tokenA tokenB factory h = getPair lib tokenB tokenA factory h
   \<and> getPair lib tokenA tokenB factory h = getPair lib (min tokenA tokenB) (max tokenA tokenB) factory h"
proof -
  consider "tokenA < tokenB" | "tokenB < tokenA" | "tokenA = tokenB"
    by (rule linorder_cases)
  then show ?thesis
  proof cases
    case 1
    then have "\<not> tokenB < tokenA" by simp
    with 1 show ?thesis
      by (simp add: getPair_def min_def max_def)
  next
    case 2
    then have "\<not> tokenA < tokenB" "\<not> tokenA \<le> tokenB" by simp_all
    with 2 show ?thesis
      by (simp add: getPair_def min_def max_def)
  next
    case 3
    then show ?thesis
      by (simp add: getPair_def)
  qed
qed

subsection \<open>Storage keys\<close>











subsection \<open>The access list\<close>











subsection \<open>The code-hash cache\<close>

text \<open>
  C9, as the code has it. The cache holds the two tokens set at start-up and
  nothing else. A lookup fetches nothing and changes nothing: it returns what
  the cache holds for the address, and \<^verbatim>\<open>undefined\<close> for every address that
  is not in it.
\<close>

theorem getContractCodeHash_reads_only:
  "getContractCodeHash codeHashMap a = (Map_get codeHashMap a, codeHashMap)
   \<and> (a \<notin> dom codeHashMap \<longrightarrow> fst (getContractCodeHash codeHashMap a) = JUndefined)
   \<and> dom (codeHashMap_init amm) = {wethAddress amm, daiAddress amm}
   \<and> fst (getContractCodeHash (codeHashMap_init amm) (daiAddress amm)) = JStr (daiCodeHash amm)
   \<and> (wethAddress amm \<noteq> daiAddress amm \<longrightarrow>
        fst (getContractCodeHash (codeHashMap_init amm) (wethAddress amm))
          = JStr (wethCodeHash amm))"
  by (auto simp: getContractCodeHash_def Map_get_def codeHashMap_init_def split: option.splits)

theorem getContractCodeHash_reads_only_witness:
  "''0xe2'' \<notin> dom (codeHashMap_init exampleAmm)
   \<and> wethAddress exampleAmm \<noteq> daiAddress exampleAmm
   \<and> fst (getContractCodeHash (codeHashMap_init exampleAmm) (wethAddress exampleAmm)) = JStr ''0x11''
   \<and> fst (getContractCodeHash (codeHashMap_init exampleAmm) ''0xe2'') = JUndefined"
  using getContractCodeHash_reads_only [of "codeHashMap_init exampleAmm" "''0xe2''" exampleAmm]
  by (simp add: exampleAmm_def codeHashMap_init_def Map_get_def)

theorem getContractCodeHash_no_fetch_counterexample:
  "getContractCodeHash (codeHashMap_init exampleAmm) ''0xe2''
     = (JUndefined, codeHashMap_init exampleAmm)
   \<and> codeHashMap_init exampleAmm ''0xe2'' = None"
  by (simp add: getContractCodeHash_def codeHashMap_init_def exampleAmm_def dom_def)

end
